theory Spec2Isabelle
  imports Main "HOL-Library.Word"
begin

section \<open>Data model of \<open>manim_voiceover/services/elevenlabs.py\<close>\<close>

text \<open>
  The module holds one class, \<open>ElevenLabsService\<close>, with a constructor that resolves
  the voice to use and a method \<open>generate_from_text\<close> that synthesises audio through
  the vendor client, with a cache in front of it. Python dictionaries are association
  lists in insertion order, \<open>None\<close> is \<open>JNull\<close> or the \<open>None\<close> of an option, and a
  \<open>bytes\<close> value is a list of 8-bit words.
\<close>

type_synonym bytes = "8 word list"

datatype json = JNull | JStr string | JObj "(string \<times> json) list"

text \<open>A remote voice, as the constructor reads it: \<open>v.name\<close> and \<open>v.voice_id\<close>.\<close>

record voice =
  name :: string
  voice_id :: string

text \<open>
  Exceptions are values: the class, the message (what \<open>f"{e}"\<close> prints) and the
  attribute \<open>__context__\<close>. Python sets \<open>__context__\<close> on every exception that is
  raised while another one is being handled, to the one being handled: \<open>Raised_in_handler c m e\<close>
  is the exception of class \<open>c\<close> and message \<open>m\<close> raised inside the handler of \<open>e\<close>,
  and \<open>Exn c m\<close> is one raised outside any handler. Only subclasses of \<open>Exception\<close> are
  modelled, which is what \<open>except Exception\<close> catches.
\<close>

datatype exn_class = IndexError | ApiError | OSError | Exception

datatype exn = Exn exn_class string | Raised_in_handler exn_class string exn

fun exn_class_of :: "exn \<Rightarrow> exn_class" where
  "exn_class_of (Exn c m) = c"
| "exn_class_of (Raised_in_handler c m e) = c"

fun exn_str :: "exn \<Rightarrow> string" where
  "exn_str (Exn c m) = m"
| "exn_str (Raised_in_handler c m e) = m"

fun exn_context :: "exn \<Rightarrow> exn option" where
  "exn_context (Exn c m) = None"
| "exn_context (Raised_in_handler c m e) = Some e"

datatype log_entry = Warn string | Info string | Error string

text \<open>The keyword arguments of \<open>client.text_to_speech.convert\<close>.\<close>

record convert_args =
  arg_text :: string
  arg_voice_id :: "string option"
  arg_model_id :: string
  arg_output_format :: string
  arg_voice_settings :: "json option"

text \<open>The attributes of a constructed service; \<open>cache_dir\<close> is set by the base class.\<close>

record service =
  self_model :: string
  self_voice_settings :: "json option"
  self_output_format :: string
  self_voice_id :: "string option"
  self_cache_dir :: string

text \<open>
  Everything the module does to the outside: the lines sent to \<open>logger\<close>, the number of
  calls of \<open>client.voices.get_all\<close>, the calls of the synthesis endpoint in order, and
  the files on disk.
\<close>

record world =
  logger :: "log_entry list"
  fetches :: nat
  calls :: "convert_args list"
  files :: "string \<rightharpoonup> bytes"

text \<open>
  The collaborators the module calls and that live outside this file are parameters:
  the vendor client (\<open>get_all\<close>, \<open>convert\<close>; the audio generator is the list of what
  each step of the iteration does, a chunk or an exception), the base constructor
  \<open>SpeechService.__init__\<close> (which raises or sets \<open>cache_dir\<close>), the helpers
  \<open>remove_bookmarks\<close>, \<open>get_cached_result\<close> and \<open>get_audio_basename\<close>, the path
  join of \<open>pathlib\<close>, and whether \<open>open(..., "wb")\<close> and \<open>f.write\<close> fail.
\<close>

record env =
  get_all :: "exn + voice list"
  convert :: "convert_args \<Rightarrow> exn + (exn + bytes) list"
  base_init :: "string \<Rightarrow> (string \<times> json) list \<Rightarrow> exn + string"
  remove_bookmarks :: "string \<Rightarrow> string"
  get_cached_result :: "json \<Rightarrow> string \<Rightarrow> json option"
  get_audio_basename :: "json \<Rightarrow> string"
  path_join :: "string \<Rightarrow> string \<Rightarrow> string"
  open_wb :: "string \<Rightarrow> exn option"
  fwrite :: "string \<Rightarrow> bytes \<Rightarrow> exn option"

section \<open>The constructor\<close>

definition logw :: "log_entry \<Rightarrow> world \<Rightarrow> world" where
  "logw l w = w\<lparr>logger := logger w @ [l]\<rparr>"

text \<open>Python truth of an \<open>Optional[str]\<close>: \<open>None\<close> and the empty string are false.\<close>

fun truthy :: "string option \<Rightarrow> bool" where
  "truthy None = False"
| "truthy (Some s) = (s \<noteq> [])"

text \<open>How an f-string prints an \<open>Optional[str]\<close>.\<close>

fun fstr :: "string option \<Rightarrow> string" where
  "fstr None = ''None''"
| "fstr (Some s) = s"

definition voices_get_all :: "env \<Rightarrow> world \<Rightarrow> (exn + voice list) \<times> world" where
  "voices_get_all E w = (get_all E, w\<lparr>fetches := fetches w + 1\<rparr>)"

text \<open>\<open>voices[0]\<close>: an IndexError on the empty list.\<close>

definition index0 :: "voice list \<Rightarrow> exn + voice" where
  "index0 voices =
     (case voices of
        [] \<Rightarrow> Inl (Exn IndexError ''list index out of range'')
      | v # _ \<Rightarrow> Inr v)"

text \<open>The body of the first \<open>try\<close> (lines 104 to 106).\<close>

definition default_voice_try :: "env \<Rightarrow> world \<Rightarrow> (exn + string) \<times> world" where
  "default_voice_try E w =
     (case voices_get_all E w of
        (Inl e, w1) \<Rightarrow> (Inl e, w1)
      | (Inr voices, w1) \<Rightarrow>
          (case index0 voices of
             Inl e \<Rightarrow> (Inl e, w1)
           | Inr v \<Rightarrow> (Inr (voice_id v), logw (Info (''Using default voice: '' @ name v)) w1)))"

text \<open>The body of the second \<open>try\<close> (lines 114 to 122).\<close>

definition named_voice_try :: "env \<Rightarrow> string option \<Rightarrow> world \<Rightarrow> (exn + string) \<times> world" where
  "named_voice_try E voice_name w =
     (case voices_get_all E w of
        (Inl e, w1) \<Rightarrow> (Inl e, w1)
      | (Inr voices, w1) \<Rightarrow>
          (case filter (\<lambda>v. Some (name v) = voice_name) voices of
             v # _ \<Rightarrow> (Inr (voice_id v), w1)
           | [] \<Rightarrow>
               (let w2 = logw (Warn (''Voice name '' @ [CHR 0x27] @ fstr voice_name @ [CHR 0x27]
                                      @ '' not found. Using default voice.'')) w1
                in case index0 voices of
                     Inl e \<Rightarrow> (Inl e, w2)
                   | Inr v \<Rightarrow> (Inr (voice_id v), w2))))"

text \<open>The \<open>if\<close>/\<open>elif\<close>/\<open>else\<close> of lines 97 to 128, with both handlers.\<close>

definition resolve_voice ::
  "env \<Rightarrow> world \<Rightarrow> string option \<Rightarrow> string option \<Rightarrow> string option \<times> world" where
  "resolve_voice E w voice_name voice_id_arg =
     (if \<not> truthy voice_name \<and> \<not> truthy voice_id_arg then
        (case default_voice_try E
                (logw (Warn ''None of `voice_name` or `voice_id` provided. Will be using default voice.'') w) of
           (Inr i, w1) \<Rightarrow> (Some i, w1)
         | (Inl e, w1) \<Rightarrow> (None, logw (Error (''Failed to get voices: '' @ exn_str e)) w1))
      else if truthy voice_id_arg then (voice_id_arg, w)
      else
        (case named_voice_try E voice_name w of
           (Inr i, w1) \<Rightarrow> (Some i, w1)
         | (Inl e, w1) \<Rightarrow>
             (if truthy voice_id_arg then voice_id_arg else None,
              logw (Error (''Failed to get voices: '' @ exn_str e)) w1)))"

text \<open>
  \<open>__init__\<close>: the attributes are stored, the voice is resolved, and the base constructor
  runs last; an exception of the base constructor is the only one that leaves.
\<close>

definition init ::
  "env \<Rightarrow> world \<Rightarrow> string option \<Rightarrow> string option \<Rightarrow> string \<Rightarrow> json option \<Rightarrow> string
     \<Rightarrow> string \<Rightarrow> (string \<times> json) list \<Rightarrow> (exn + service) \<times> world" where
  "init E w voice_name voice_id_arg model voice_settings output_format transcription_model kwargs =
     (case resolve_voice E w voice_name voice_id_arg of
        (vid, w1) \<Rightarrow>
          (case base_init E transcription_model kwargs of
             Inl e \<Rightarrow> (Inl e, w1)
           | Inr cd \<Rightarrow>
               (Inr \<lparr>self_model = model, self_voice_settings = voice_settings,
                     self_output_format = output_format, self_voice_id = vid,
                     self_cache_dir = cd\<rparr>, w1)))"

section \<open>Synthesis\<close>

text \<open>The dictionary \<open>input_data\<close> of lines 142 to 150.\<close>

definition input_data_of :: "env \<Rightarrow> service \<Rightarrow> string \<Rightarrow> json" where
  "input_data_of E s txt =
     JObj [(''input_text'', JStr (remove_bookmarks E txt)),
           (''service'', JStr ''elevenlabs''),
           (''config'', JObj [(''model'', JStr (self_model s)),
                              (''voice_id'', (case self_voice_id s of
                                                None \<Rightarrow> JNull | Some v \<Rightarrow> JStr v))])]"

text \<open>\<open>b"".join(chunk for chunk in audio_generator)\<close>: the iteration stops at an exception.\<close>

fun join_chunks :: "(exn + bytes) list \<Rightarrow> exn + bytes" where
  "join_chunks [] = Inr []"
| "join_chunks (Inl e # rest) = Inl e"
| "join_chunks (Inr c # rest) =
     (case join_chunks rest of Inl e \<Rightarrow> Inl e | Inr bs \<Rightarrow> Inr (c @ bs))"

text \<open>
  \<open>with open(p, "wb") as f: f.write(bs)\<close>: opening truncates the file; a write that
  fails leaves the truncated file.
\<close>

definition write_file :: "env \<Rightarrow> string \<Rightarrow> bytes \<Rightarrow> world \<Rightarrow> (exn + unit) \<times> world" where
  "write_file E p bs w =
     (case open_wb E p of
        Some e \<Rightarrow> (Inl e, w)
      | None \<Rightarrow>
          (case fwrite E p bs of
             Some e \<Rightarrow> (Inl e, w\<lparr>files := (files w)(p \<mapsto> [])\<rparr>)
           | None \<Rightarrow> (Inr (), w\<lparr>files := (files w)(p \<mapsto> bs)\<rparr>)))"

definition convert_args_of :: "service \<Rightarrow> string \<Rightarrow> convert_args" where
  "convert_args_of s input_text =
     \<lparr>arg_text = input_text, arg_voice_id = self_voice_id s, arg_model_id = self_model s,
      arg_output_format = self_output_format s, arg_voice_settings = self_voice_settings s\<rparr>"

text \<open>The body of the \<open>try\<close> of lines 163 to 178.\<close>

definition synth_try ::
  "env \<Rightarrow> service \<Rightarrow> world \<Rightarrow> string \<Rightarrow> string \<Rightarrow> string \<Rightarrow> (exn + unit) \<times> world" where
  "synth_try E s w input_text cache_dir audio_path =
     (let w1 = w\<lparr>calls := calls w @ [convert_args_of s input_text]\<rparr>
      in case convert E (convert_args_of s input_text) of
           Inl e \<Rightarrow> (Inl e, w1)
         | Inr audio_generator \<Rightarrow>
             (case join_chunks audio_generator of
                Inl e \<Rightarrow> (Inl e, w1)
              | Inr audio_bytes \<Rightarrow> write_file E (path_join E cache_dir audio_path) audio_bytes w1))"

text \<open>
  \<open>raise Exception("Failed to generate speech with ElevenLabs.")\<close> of line 182: it runs
  inside the handler of \<open>e\<close> and without \<open>from\<close>, so \<open>e\<close> is its \<open>__context__\<close>.
\<close>

definition synthesis_failure :: "exn \<Rightarrow> exn" where
  "synthesis_failure e =
     Raised_in_handler Exception ''Failed to generate speech with ElevenLabs.'' e"

definition generate_from_text ::
  "env \<Rightarrow> service \<Rightarrow> world \<Rightarrow> string \<Rightarrow> string option \<Rightarrow> string option \<Rightarrow> (exn + json) \<times> world" where
  "generate_from_text E s w txt cache_dir_arg path =
     (let cache_dir = (case cache_dir_arg of None \<Rightarrow> self_cache_dir s | Some d \<Rightarrow> d);
          input_text = remove_bookmarks E txt;
          input_data = input_data_of E s txt
      in case get_cached_result E input_data cache_dir of
           Some cached_result \<Rightarrow> (Inr cached_result, w)
         | None \<Rightarrow>
             (let audio_path = (case path of
                                  None \<Rightarrow> get_audio_basename E input_data @ ''.mp3''
                                | Some p \<Rightarrow> p)
              in case synth_try E s w input_text cache_dir audio_path of
                   (Inl e, w1) \<Rightarrow>
                     (Inl (synthesis_failure e),
                      logw (Error (''Error using ElevenLabs API: '' @ exn_str e)) w1)
                 | (Inr u, w1) \<Rightarrow>
                     (Inr (JObj [(''input_text'', JStr txt),
                                 (''input_data'', input_data),
                                 (''original_audio'', JStr audio_path)]), w1)))"

section \<open>The specification's words, and sample environments\<close>

text \<open>
  The specification describes the lookup by name as a linear scan for the first voice whose
  name equals \<open>voice_name\<close> exactly. This definition follows those words; the constructor
  itself builds the list of all matches and takes its head.
\<close>

definition first_match :: "string \<Rightarrow> voice list \<Rightarrow> voice option" where
  "first_match n voices = find (\<lambda>v. name v = n) voices"

text \<open>A fresh world, a remote account with two voices, and collaborators that succeed.\<close>

definition w0 :: world where
  "w0 = \<lparr>logger = [], fetches = 0, calls = [], files = Map.empty\<rparr>"

definition ex_voices :: "voice list" where
  "ex_voices = [\<lparr>name = ''Rachel'', voice_id = ''V1''\<rparr>, \<lparr>name = ''Adam'', voice_id = ''V2''\<rparr>]"

definition ex_voices_blank :: "voice list" where
  "ex_voices_blank = [\<lparr>name = ''Rachel'', voice_id = ''V1''\<rparr>, \<lparr>name = '''', voice_id = ''V2''\<rparr>]"

definition ex_env :: env where
  "ex_env =
     \<lparr>get_all = Inr ex_voices,
      convert = (\<lambda>a. Inr [Inr [1, 2], Inr [3]]),
      base_init = (\<lambda>tm kw. Inr ''media''),
      remove_bookmarks = filter (\<lambda>c. c \<noteq> CHR ''#''),
      get_cached_result = (\<lambda>d cd. None),
      get_audio_basename = (\<lambda>d. ''hello-0a1b''),
      path_join = (\<lambda>a b. a @ ''/'' @ b),
      open_wb = (\<lambda>p. None),
      fwrite = (\<lambda>p bs. None)\<rparr>"

definition ex_service :: service where
  "ex_service =
     \<lparr>self_model = ''eleven_multilingual_v2'', self_voice_settings = None,
      self_output_format = ''mp3_44100_128'', self_voice_id = Some ''V1'',
      self_cache_dir = ''media''\<rparr>"

definition ex_service2 :: service where
  "ex_service2 =
     ex_service\<lparr>self_voice_settings := Some (JObj [(''stability'', JStr ''0.5'')]),
                 self_output_format := ''pcm_16000''\<rparr>"

definition ex_fingerprint :: json where
  "ex_fingerprint =
     JObj [(''input_text'', JStr ''Hi there''),
           (''service'', JStr ''elevenlabs''),
           (''config'', JObj [(''model'', JStr ''eleven_multilingual_v2''),
                              (''voice_id'', JStr ''V1'')])]"

definition ex_cached :: json where
  "ex_cached =
     JObj [(''input_text'', JStr ''Hi #there''),
           (''original_audio'', JStr ''older.mp3''),
           (''final_audio'', JStr ''older_final.mp3'')]"

text \<open>A cache that holds one entry, a vendor that refuses, and a disk that is full.\<close>

definition ex_env_hit :: env where
  "ex_env_hit =
     ex_env\<lparr>get_cached_result :=
       (\<lambda>d cd. if d = ex_fingerprint \<and> cd = ''media'' then Some ex_cached else None)\<rparr>"

definition ex_env_quota :: env where
  "ex_env_quota = ex_env\<lparr>convert := (\<lambda>a. Inl (Exn ApiError ''quota_exceeded''))\<rparr>"

definition ex_env_disk :: env where
  "ex_env_disk = ex_env\<lparr>fwrite := (\<lambda>p bs. Some (Exn OSError ''No space left on device''))\<rparr>"

section \<open>Auxiliary facts\<close>

lemmas ctor_defs = init_def resolve_voice_def named_voice_try_def default_voice_try_def
  voices_get_all_def index0_def logw_def

lemmas gen_defs = generate_from_text_def synth_try_def write_file_def convert_args_of_def
  logw_def synthesis_failure_def Let_def

lemmas ex_defs = ex_env_def ex_voices_def ex_voices_blank_def ex_service_def w0_def

lemmas ex_defs2 = ex_defs ex_env_hit_def ex_service2_def ex_fingerprint_def

text \<open>The head of the list of matches is the first match of a linear scan.\<close>

lemma find_filter: "find P xs = (case filter P xs of [] \<Rightarrow> None | x # _ \<Rightarrow> Some x)"
  by (induction xs) auto

text \<open>A generator that only yields chunks joins to their concatenation, in order.\<close>

lemma join_chunks_ok: "join_chunks (map Inr cs) = Inr (concat cs)"
  by (induction cs) auto

text \<open>A generator that raises at some step makes the join raise that exception.\<close>

lemma join_chunks_raises: "join_chunks (map Inr cs @ Inl e # rest) = Inl e"
  by (induction cs) auto

section \<open>Voice resolution\<close>

text \<open>
  C1, as stated, fails. A \<open>voice_name\<close> that is given but empty is false in Python, so
  with no \<open>voice_id\<close> the constructor takes the default-voice branch: the list is not
  scanned for the name, and the first voice is used although a later voice has exactly the
  given (empty) name.
\<close>

theorem named_voice_blank_name_counterexample:
  "first_match '''' ex_voices_blank = Some \<lparr>name = '''', voice_id = ''V2''\<rparr> \<and>
   fst (init (ex_env\<lparr>get_all := Inr ex_voices_blank\<rparr>) w0 (Some '''') None
          ''eleven_multilingual_v2'' None ''mp3_44100_128'' ''base'' [])
     = Inr \<lparr>self_model = ''eleven_multilingual_v2'', self_voice_settings = None,
            self_output_format = ''mp3_44100_128'', self_voice_id = Some ''V1'',
            self_cache_dir = ''media''\<rparr>"
  by (simp add: first_match_def ctor_defs ex_defs)

text \<open>
  C1, amended: when \<open>voice_id\<close> is absent or empty and \<open>voice_name\<close> is a non-empty
  string, the voice list is fetched once; if the fetch returns a list, the first voice whose
  name equals \<open>voice_name\<close> exactly gives the resolved id, and when no voice matches in a
  non-empty list the resolved id is the first entry's and a warning is logged. (The base
  constructor, which runs afterwards, is assumed to return.)
\<close>

theorem named_voice_resolution:
  assumes "\<not> truthy voice_id_arg" and "n \<noteq> []"
    and "get_all E = Inr voices" and "base_init E tm kw = Inr cd"
  shows "fetches (snd (init E w (Some n) voice_id_arg m vs fmt tm kw)) = fetches w + 1 \<and>
    (\<forall>v. first_match n voices = Some v \<longrightarrow>
       fst (init E w (Some n) voice_id_arg m vs fmt tm kw) =
         Inr \<lparr>self_model = m, self_voice_settings = vs, self_output_format = fmt,
              self_voice_id = Some (voice_id v), self_cache_dir = cd\<rparr>) \<and>
    (first_match n voices = None \<and> voices \<noteq> [] \<longrightarrow>
       fst (init E w (Some n) voice_id_arg m vs fmt tm kw) =
         Inr \<lparr>self_model = m, self_voice_settings = vs, self_output_format = fmt,
              self_voice_id = Some (voice_id (hd voices)), self_cache_dir = cd\<rparr> \<and>
       Warn (''Voice name '' @ [CHR 0x27] @ n @ [CHR 0x27] @ '' not found. Using default voice.'')
         \<in> set (logger (snd (init E w (Some n) voice_id_arg m vs fmt tm kw))))"
  using assms
  by (auto simp add: ctor_defs first_match_def find_filter split: list.splits)

text \<open>
  C1, witness: with the voices Rachel and Adam, the name Adam resolves to Adam's id, and
  the unknown name Bob falls back to Rachel's id with the warning in the log.
\<close>

theorem named_voice_resolution_witness:
  "\<not> truthy None \<and> ''Adam'' \<noteq> [] \<and> ''Bob'' \<noteq> [] \<and> get_all ex_env = Inr ex_voices \<and>
   base_init ex_env ''base'' [] = Inr ''media'' \<and>
   first_match ''Adam'' ex_voices = Some \<lparr>name = ''Adam'', voice_id = ''V2''\<rparr> \<and>
   first_match ''Bob'' ex_voices = None \<and> ex_voices \<noteq> [] \<and>
   fetches (snd (init ex_env w0 (Some ''Adam'') None ''eleven_multilingual_v2'' None
                   ''mp3_44100_128'' ''base'' [])) = 1 \<and>
   fst (init ex_env w0 (Some ''Adam'') None ''eleven_multilingual_v2'' None
          ''mp3_44100_128'' ''base'' [])
     = Inr \<lparr>self_model = ''eleven_multilingual_v2'', self_voice_settings = None,
            self_output_format = ''mp3_44100_128'', self_voice_id = Some ''V2'',
            self_cache_dir = ''media''\<rparr> \<and>
   fst (init ex_env w0 (Some ''Bob'') None ''eleven_multilingual_v2'' None
          ''mp3_44100_128'' ''base'' [])
     = Inr \<lparr>self_model = ''eleven_multilingual_v2'', self_voice_settings = None,
            self_output_format = ''mp3_44100_128'', self_voice_id = Some ''V1'',
            self_cache_dir = ''media''\<rparr> \<and>
   Warn (''Voice name '' @ [CHR 0x27] @ ''Bob'' @ [CHR 0x27] @ '' not found. Using default voice.'')
     \<in> set (logger (snd (init ex_env w0 (Some ''Bob'') None ''eleven_multilingual_v2'' None
                            ''mp3_44100_128'' ''base'' [])))"
proof -
  have h: "\<not> truthy None" "get_all ex_env = Inr ex_voices"
    "base_init ex_env ''base'' [] = Inr ''media''"
    by (simp_all add: ex_env_def)
  have a: "''Adam'' \<noteq> []" and b: "''Bob'' \<noteq> []"
    by simp_all
  have m: "first_match ''Adam'' ex_voices = Some \<lparr>name = ''Adam'', voice_id = ''V2''\<rparr>"
    "first_match ''Bob'' ex_voices = None" "ex_voices \<noteq> []" "hd ex_voices = \<lparr>name = ''Rachel'', voice_id = ''V1''\<rparr>"
    by (simp_all add: first_match_def ex_voices_def)
  from named_voice_resolution [OF h(1) a h(2,3), of w0 "''eleven_multilingual_v2''" None "''mp3_44100_128''"]
       named_voice_resolution [OF h(1) b h(2,3), of w0 "''eleven_multilingual_v2''" None "''mp3_44100_128''"]
       m h
  show ?thesis by (simp add: w0_def)
qed

section \<open>An explicit voice id\<close>

text \<open>
  C2, as stated, fails. A \<open>voice_id\<close> that is given but empty is false in Python: with no
  \<open>voice_name\<close> the constructor takes the default-voice branch, fetches the voice list
  and resolves to the first voice's id, not to the supplied (empty) id.
\<close>

theorem empty_voice_id_counterexample:
  "init ex_env w0 None (Some '''') ''eleven_multilingual_v2'' None ''mp3_44100_128'' ''base'' []
     = (Inr \<lparr>self_model = ''eleven_multilingual_v2'', self_voice_settings = None,
             self_output_format = ''mp3_44100_128'', self_voice_id = Some ''V1'',
             self_cache_dir = ''media''\<rparr>,
        \<lparr>logger = [Warn ''None of `voice_name` or `voice_id` provided. Will be using default voice.'',
                   Info ''Using default voice: Rachel''],
         fetches = 1, calls = [], files = Map.empty\<rparr>)"
  by (simp add: ctor_defs ex_defs)

text \<open>
  C2, amended: for every constructor call in which \<open>voice_id\<close> is given and non-empty,
  whatever \<open>voice_name\<close> is, the resolved voice id is exactly the supplied one and
  nothing outside is touched: no voice-list fetch, no log line. (The base constructor is
  assumed to return.)
\<close>

theorem voice_id_used_verbatim:
  assumes "vid \<noteq> []" and "base_init E tm kw = Inr cd"
  shows "init E w voice_name (Some vid) m vs fmt tm kw =
     (Inr \<lparr>self_model = m, self_voice_settings = vs, self_output_format = fmt,
           self_voice_id = Some vid, self_cache_dir = cd\<rparr>, w)"
  using assms by (simp add: init_def resolve_voice_def)

text \<open>C2, witness: the id V9 given together with the name Adam; no fetch is counted.\<close>

theorem voice_id_used_verbatim_witness:
  "''V9'' \<noteq> [] \<and> base_init ex_env ''base'' [] = Inr ''media'' \<and>
   init ex_env w0 (Some ''Adam'') (Some ''V9'') ''eleven_multilingual_v2'' None
        ''mp3_44100_128'' ''base'' []
     = (Inr \<lparr>self_model = ''eleven_multilingual_v2'', self_voice_settings = None,
             self_output_format = ''mp3_44100_128'', self_voice_id = Some ''V9'',
             self_cache_dir = ''media''\<rparr>, w0) \<and>
   fetches w0 = 0"
proof -
  have h: "''V9'' \<noteq> []" "base_init ex_env ''base'' [] = Inr ''media''"
    by (simp_all add: ex_env_def)
  from voice_id_used_verbatim [OF h] h show ?thesis by (simp add: w0_def)
qed

section \<open>An empty voice list\<close>

text \<open>
  C3, as stated, fails. With an empty fetched list both fallback paths do raise the
  IndexError of \<open>voices[0]\<close>, but inside the \<open>try\<close>: the handler logs it and sets the
  voice id to \<open>None\<close>, and the construction returns a service.
\<close>

theorem empty_voice_list_counterexample:
  "init (ex_env\<lparr>get_all := Inr []\<rparr>) w0 None None ''eleven_multilingual_v2'' None
        ''mp3_44100_128'' ''base'' []
     = (Inr \<lparr>self_model = ''eleven_multilingual_v2'', self_voice_settings = None,
             self_output_format = ''mp3_44100_128'', self_voice_id = None,
             self_cache_dir = ''media''\<rparr>,
        \<lparr>logger = [Warn ''None of `voice_name` or `voice_id` provided. Will be using default voice.'',
                   Error ''Failed to get voices: list index out of range''],
         fetches = 1, calls = [], files = Map.empty\<rparr>) \<and>
   init (ex_env\<lparr>get_all := Inr []\<rparr>) w0 (Some ''Bob'') None ''eleven_multilingual_v2'' None
        ''mp3_44100_128'' ''base'' []
     = (Inr \<lparr>self_model = ''eleven_multilingual_v2'', self_voice_settings = None,
             self_output_format = ''mp3_44100_128'', self_voice_id = None,
             self_cache_dir = ''media''\<rparr>,
        \<lparr>logger = [Warn (''Voice name '' @ [CHR 0x27] @ ''Bob'' @ [CHR 0x27]
                           @ '' not found. Using default voice.''),
                   Error ''Failed to get voices: list index out of range''],
         fetches = 1, calls = [], files = Map.empty\<rparr>)"
  by (simp add: ctor_defs ex_defs)

text \<open>
  C3, amended: if the voice list fetched during construction is empty, the out-of-bounds
  access of the "use first entry" paths (no usable \<open>voice_id\<close>; \<open>voice_name\<close> absent,
  or given and necessarily unmatched) is caught by the handler: the last log line is the
  error with the index message, the resolved voice id is \<open>None\<close>, and construction
  completes when the base constructor returns.
\<close>

theorem empty_voice_list_caught:
  assumes "get_all E = Inr []" and "\<not> truthy voice_id_arg"
    and "base_init E tm kw = Inr cd"
  shows "fst (init E w voice_name voice_id_arg m vs fmt tm kw) =
       Inr \<lparr>self_model = m, self_voice_settings = vs, self_output_format = fmt,
            self_voice_id = None, self_cache_dir = cd\<rparr> \<and>
     last (logger (snd (init E w voice_name voice_id_arg m vs fmt tm kw))) =
       Error ''Failed to get voices: list index out of range''"
  using assms by (simp add: ctor_defs)

text \<open>C3, witness: the name Bob against an empty voice list.\<close>

theorem empty_voice_list_caught_witness:
  "get_all (ex_env\<lparr>get_all := Inr []\<rparr>) = Inr [] \<and> \<not> truthy None \<and>
   base_init (ex_env\<lparr>get_all := Inr []\<rparr>) ''base'' [] = Inr ''media'' \<and>
   fst (init (ex_env\<lparr>get_all := Inr []\<rparr>) w0 (Some ''Bob'') None ''eleven_multilingual_v2''
          None ''mp3_44100_128'' ''base'' [])
     = Inr \<lparr>self_model = ''eleven_multilingual_v2'', self_voice_settings = None,
            self_output_format = ''mp3_44100_128'', self_voice_id = None,
            self_cache_dir = ''media''\<rparr>"
proof -
  have h: "get_all (ex_env\<lparr>get_all := Inr []\<rparr>) = Inr []" "\<not> truthy None"
    "base_init (ex_env\<lparr>get_all := Inr []\<rparr>) ''base'' [] = Inr ''media''"
    by (simp_all add: ex_env_def)
  from empty_voice_list_caught [OF h] h show ?thesis by simp
qed

section \<open>A failing voice-list fetch\<close>

text \<open>
  C4: the constructor fetches exactly when \<open>voice_id\<close> is absent or empty. For every
  exception \<open>e\<close> the fetch raises, in either fetching branch, the exception is caught
  and logged with its message, the resolved voice id is \<open>None\<close>, and construction
  completes (a service is returned when the base constructor returns).
\<close>

theorem fetch_error_degrades_to_None:
  assumes "get_all E = Inl e" and "\<not> truthy voice_id_arg"
    and "base_init E tm kw = Inr cd"
  shows "fst (init E w voice_name voice_id_arg m vs fmt tm kw) =
       Inr \<lparr>self_model = m, self_voice_settings = vs, self_output_format = fmt,
            self_voice_id = None, self_cache_dir = cd\<rparr> \<and>
     last (logger (snd (init E w voice_name voice_id_arg m vs fmt tm kw))) =
       Error (''Failed to get voices: '' @ exn_str e) \<and>
     fetches (snd (init E w voice_name voice_id_arg m vs fmt tm kw)) = fetches w + 1"
  using assms by (simp add: ctor_defs)

text \<open>C4, witness: the vendor answers 401 while the name Adam is looked up.\<close>

theorem fetch_error_degrades_to_None_witness:
  "get_all (ex_env\<lparr>get_all := Inl (Exn ApiError ''401 Unauthorized'')\<rparr>)
     = Inl (Exn ApiError ''401 Unauthorized'') \<and>
   \<not> truthy None \<and>
   base_init (ex_env\<lparr>get_all := Inl (Exn ApiError ''401 Unauthorized'')\<rparr>) ''base'' []
     = Inr ''media'' \<and>
   fst (init (ex_env\<lparr>get_all := Inl (Exn ApiError ''401 Unauthorized'')\<rparr>) w0 (Some ''Adam'')
          None ''eleven_multilingual_v2'' None ''mp3_44100_128'' ''base'' [])
     = Inr \<lparr>self_model = ''eleven_multilingual_v2'', self_voice_settings = None,
            self_output_format = ''mp3_44100_128'', self_voice_id = None,
            self_cache_dir = ''media''\<rparr> \<and>
   last (logger (snd (init (ex_env\<lparr>get_all := Inl (Exn ApiError ''401 Unauthorized'')\<rparr>) w0
          (Some ''Adam'') None ''eleven_multilingual_v2'' None ''mp3_44100_128'' ''base'' [])))
     = Error ''Failed to get voices: 401 Unauthorized''"
proof -
  have h: "get_all (ex_env\<lparr>get_all := Inl (Exn ApiError ''401 Unauthorized'')\<rparr>)
             = Inl (Exn ApiError ''401 Unauthorized'')"
    "\<not> truthy None"
    "base_init (ex_env\<lparr>get_all := Inl (Exn ApiError ''401 Unauthorized'')\<rparr>) ''base'' []
       = Inr ''media''"
    by (simp_all add: ex_env_def)
  from fetch_error_degrades_to_None [OF h] h show ?thesis by simp
qed

section \<open>The fingerprint and the cache\<close>

text \<open>
  C5: for every text and every two services that agree on model and voice id, whatever
  their voice settings and output formats are, \<open>generate_from_text\<close> builds the same
  fingerprint, namely the dictionary of the bookmark-stripped text, the service name
  \<open>elevenlabs\<close> and the configuration of model and voice id; hence an entry cached for
  one is a cache hit for the other.
\<close>

theorem fingerprint_ignores_settings_and_format:
  assumes "self_model s2 = self_model s1" and "self_voice_id s2 = self_voice_id s1"
  shows "input_data_of E s1 txt =
       JObj [(''input_text'', JStr (remove_bookmarks E txt)),
             (''service'', JStr ''elevenlabs''),
             (''config'', JObj [(''model'', JStr (self_model s1)),
                                (''voice_id'', (case self_voice_id s1 of
                                                  None \<Rightarrow> JNull | Some v \<Rightarrow> JStr v))])] \<and>
     input_data_of E s2 txt = input_data_of E s1 txt \<and>
     (get_cached_result E (input_data_of E s1 txt) cd = Some r \<longrightarrow>
        generate_from_text E s2 w txt (Some cd) path = (Inr r, w))"
  using assms by (simp add: generate_from_text_def input_data_of_def)

text \<open>
  C5, witness: two services that differ in both voice settings and output format share the
  fingerprint, and the second one is served from the cache.
\<close>

theorem fingerprint_ignores_settings_and_format_witness:
  "self_model ex_service2 = self_model ex_service \<and>
   self_voice_id ex_service2 = self_voice_id ex_service \<and>
   self_voice_settings ex_service2 \<noteq> self_voice_settings ex_service \<and>
   self_output_format ex_service2 \<noteq> self_output_format ex_service \<and>
   input_data_of ex_env_hit ex_service2 ''Hi #there'' = ex_fingerprint \<and>
   input_data_of ex_env_hit ex_service ''Hi #there'' = ex_fingerprint \<and>
   generate_from_text ex_env_hit ex_service2 w0 ''Hi #there'' (Some ''media'') None
     = (Inr ex_cached, w0)"
proof -
  have h: "self_model ex_service2 = self_model ex_service"
    "self_voice_id ex_service2 = self_voice_id ex_service"
    by (simp_all add: ex_service2_def)
  have d: "self_voice_settings ex_service2 \<noteq> self_voice_settings ex_service"
    "self_output_format ex_service2 \<noteq> self_output_format ex_service"
    by (simp_all add: ex_service2_def ex_service_def)
  have v: "self_model ex_service = ''eleven_multilingual_v2''"
    "self_voice_id ex_service = Some ''V1''"
    "remove_bookmarks ex_env_hit ''Hi #there'' = ''Hi there''"
    by (simp_all add: ex_service_def ex_env_hit_def ex_env_def)
  have c: "get_cached_result ex_env_hit ex_fingerprint ''media'' = Some ex_cached"
    by (simp add: ex_env_hit_def)
  from fingerprint_ignores_settings_and_format
         [OF h, of ex_env_hit "''Hi #there''" "''media''" ex_cached w0 None] h d v c
  show ?thesis by (simp add: ex_fingerprint_def)
qed

text \<open>
  C6: whenever the fingerprint is found in the cache, \<open>generate_from_text\<close> returns the
  cached result and leaves the world as it was: no call of the synthesis endpoint is
  issued and no file is written.
\<close>

theorem cache_hit_returns_cached:
  assumes "get_cached_result E (input_data_of E s txt)
             (case cache_dir_arg of None \<Rightarrow> self_cache_dir s | Some d \<Rightarrow> d) = Some r"
  shows "generate_from_text E s w txt cache_dir_arg path = (Inr r, w) \<and>
     calls (snd (generate_from_text E s w txt cache_dir_arg path)) = calls w \<and>
     files (snd (generate_from_text E s w txt cache_dir_arg path)) = files w"
  using assms by (simp add: generate_from_text_def)

text \<open>C6, witness: a hit in the service's own cache directory.\<close>

theorem cache_hit_returns_cached_witness:
  "get_cached_result ex_env_hit (input_data_of ex_env_hit ex_service ''Hi #there'')
      (case None of None \<Rightarrow> self_cache_dir ex_service | Some d \<Rightarrow> d) = Some ex_cached \<and>
   generate_from_text ex_env_hit ex_service w0 ''Hi #there'' None None = (Inr ex_cached, w0) \<and>
   calls w0 = []"
proof -
  have h: "get_cached_result ex_env_hit (input_data_of ex_env_hit ex_service ''Hi #there'')
      (case None of None \<Rightarrow> self_cache_dir ex_service | Some d \<Rightarrow> d) = Some ex_cached"
    by (simp add: input_data_of_def ex_defs2)
  from cache_hit_returns_cached [OF h, of w0 None] h show ?thesis by (simp add: w0_def)
qed

text \<open>
  C10: on a cache hit the caller's \<open>path\<close> is ignored. For every supplied path the
  cached record is returned as it is (so with its own \<open>original_audio\<close>), and no file
  changes; in particular nothing is written at the supplied path.
\<close>

theorem cache_hit_ignores_path:
  fixes E s w "txt" cache_dir_arg p
  defines "cache_dir \<equiv> (case cache_dir_arg of None \<Rightarrow> self_cache_dir s | Some d \<Rightarrow> d)"
  assumes "get_cached_result E (input_data_of E s txt) cache_dir = Some r"
  shows "fst (generate_from_text E s w txt cache_dir_arg (Some p)) = Inr r \<and>
     files (snd (generate_from_text E s w txt cache_dir_arg (Some p))) (path_join E cache_dir p)
       = files w (path_join E cache_dir p) \<and>
     files (snd (generate_from_text E s w txt cache_dir_arg (Some p))) = files w"
  using assms(2) unfolding cache_dir_def by (simp add: generate_from_text_def)

text \<open>
  C10, witness: the cached record names \<open>older.mp3\<close>; the supplied \<open>take2.mp3\<close> is
  neither returned nor created.
\<close>

theorem cache_hit_ignores_path_witness:
  "get_cached_result ex_env_hit (input_data_of ex_env_hit ex_service ''Hi #there'')
      (case Some ''media'' of None \<Rightarrow> self_cache_dir ex_service | Some d \<Rightarrow> d) = Some ex_cached \<and>
   fst (generate_from_text ex_env_hit ex_service w0 ''Hi #there'' (Some ''media'')
          (Some ''take2.mp3'')) = Inr ex_cached \<and>
   ex_cached = JObj [(''input_text'', JStr ''Hi #there''),
                     (''original_audio'', JStr ''older.mp3''),
                     (''final_audio'', JStr ''older_final.mp3'')] \<and>
   files (snd (generate_from_text ex_env_hit ex_service w0 ''Hi #there'' (Some ''media'')
          (Some ''take2.mp3''))) ''media/take2.mp3'' = None"
proof -
  have h: "get_cached_result ex_env_hit (input_data_of ex_env_hit ex_service ''Hi #there'')
      (case Some ''media'' of None \<Rightarrow> self_cache_dir ex_service | Some d \<Rightarrow> d) = Some ex_cached"
    by (simp add: input_data_of_def ex_defs2)
  from cache_hit_ignores_path [OF h, of w0 "''take2.mp3''"] h
  show ?thesis by (simp add: w0_def ex_cached_def)
qed

section \<open>A cache miss\<close>

text \<open>
  C7: on a cache miss where the endpoint yields the chunks \<open>chunks\<close> without raising
  (and opening and writing the file do not fail), the endpoint is called once with the
  stripped text, the resolved voice id, the model, the output format and the voice
  settings, and afterwards the file at the join of the cache directory and the audio path
  holds exactly the concatenation of the chunks in order, whatever it held before.
\<close>

theorem miss_calls_endpoint_and_writes_chunks:
  fixes E s w "txt" cache_dir_arg path chunks
  defines "cache_dir \<equiv> (case cache_dir_arg of None \<Rightarrow> self_cache_dir s | Some d \<Rightarrow> d)"
    and "audio_path \<equiv> (case path of
                          None \<Rightarrow> get_audio_basename E (input_data_of E s txt) @ ''.mp3''
                        | Some p \<Rightarrow> p)"
    and "args \<equiv> \<lparr>arg_text = remove_bookmarks E txt, arg_voice_id = self_voice_id s,
                  arg_model_id = self_model s, arg_output_format = self_output_format s,
                  arg_voice_settings = self_voice_settings s\<rparr>"
  assumes "get_cached_result E (input_data_of E s txt) cache_dir = None"
    and "convert E args = Inr (map Inr chunks)"
    and "open_wb E (path_join E cache_dir audio_path) = None"
    and "fwrite E (path_join E cache_dir audio_path) (concat chunks) = None"
  shows "calls (snd (generate_from_text E s w txt cache_dir_arg path)) = calls w @ [args] \<and>
     files (snd (generate_from_text E s w txt cache_dir_arg path))
       (path_join E cache_dir audio_path) = Some (concat chunks)"
  using assms(4-) unfolding cache_dir_def audio_path_def args_def
  by (simp add: gen_defs join_chunks_ok)

text \<open>
  C7, witness: the chunks \<open>[1, 2]\<close> and \<open>[3]\<close> replace the five bytes of an older
  file at the same path.
\<close>

theorem miss_calls_endpoint_and_writes_chunks_witness:
  "get_cached_result ex_env (input_data_of ex_env ex_service ''Hi #there'')
      (case None of None \<Rightarrow> self_cache_dir ex_service | Some d \<Rightarrow> d) = None \<and>
   convert ex_env
      \<lparr>arg_text = remove_bookmarks ex_env ''Hi #there'', arg_voice_id = self_voice_id ex_service,
       arg_model_id = self_model ex_service, arg_output_format = self_output_format ex_service,
       arg_voice_settings = self_voice_settings ex_service\<rparr> = Inr (map Inr [[1, 2], [3]]) \<and>
   calls (snd (generate_from_text ex_env ex_service
                 (w0\<lparr>files := [''media/hello-0a1b.mp3'' \<mapsto> [9, 9, 9, 9, 9]]\<rparr>)
                 ''Hi #there'' None None))
     = [\<lparr>arg_text = ''Hi there'', arg_voice_id = Some ''V1'',
         arg_model_id = ''eleven_multilingual_v2'', arg_output_format = ''mp3_44100_128'',
         arg_voice_settings = None\<rparr>] \<and>
   files (snd (generate_from_text ex_env ex_service
                 (w0\<lparr>files := [''media/hello-0a1b.mp3'' \<mapsto> [9, 9, 9, 9, 9]]\<rparr>)
                 ''Hi #there'' None None)) ''media/hello-0a1b.mp3''
     = Some [1, 2, 3]"
proof -
  have h: "get_cached_result ex_env (input_data_of ex_env ex_service ''Hi #there'')
      (case None of None \<Rightarrow> self_cache_dir ex_service | Some d \<Rightarrow> d) = None"
    "convert ex_env
      \<lparr>arg_text = remove_bookmarks ex_env ''Hi #there'', arg_voice_id = self_voice_id ex_service,
       arg_model_id = self_model ex_service, arg_output_format = self_output_format ex_service,
       arg_voice_settings = self_voice_settings ex_service\<rparr> = Inr (map Inr [[1, 2], [3]])"
    "open_wb ex_env (path_join ex_env
       (case None of None \<Rightarrow> self_cache_dir ex_service | Some d \<Rightarrow> d)
       (case None of
          None \<Rightarrow> get_audio_basename ex_env (input_data_of ex_env ex_service ''Hi #there'') @ ''.mp3''
        | Some p \<Rightarrow> p)) = None"
    "fwrite ex_env (path_join ex_env
       (case None of None \<Rightarrow> self_cache_dir ex_service | Some d \<Rightarrow> d)
       (case None of
          None \<Rightarrow> get_audio_basename ex_env (input_data_of ex_env ex_service ''Hi #there'') @ ''.mp3''
        | Some p \<Rightarrow> p)) (concat [[1, 2], [3]]) = None"
    by (simp_all add: ex_env_def)
  from miss_calls_endpoint_and_writes_chunks
         [OF h, of "w0\<lparr>files := [''media/hello-0a1b.mp3'' \<mapsto> [9, 9, 9, 9, 9]]\<rparr>"] h
  show ?thesis by (simp add: ex_env_def ex_service_def w0_def)
qed

text \<open>
  C8: every successful return on a cache miss is the record of the original, unstripped
  text, the fingerprint, and the audio path, which is the caller's path when one is given
  and otherwise the basename derived from the fingerprint followed by \<open>.mp3\<close>.
\<close>

theorem miss_success_returns_record:
  fixes E s w "txt" cache_dir_arg path
  defines "cache_dir \<equiv> (case cache_dir_arg of None \<Rightarrow> self_cache_dir s | Some d \<Rightarrow> d)"
    and "audio_path \<equiv> (case path of
                          None \<Rightarrow> get_audio_basename E (input_data_of E s txt) @ ''.mp3''
                        | Some p \<Rightarrow> p)"
  assumes "get_cached_result E (input_data_of E s txt) cache_dir = None"
    and "fst (generate_from_text E s w txt cache_dir_arg path) = Inr r"
  shows "r = JObj [(''input_text'', JStr txt),
                   (''input_data'', input_data_of E s txt),
                   (''original_audio'', JStr audio_path)]"
  using assms(3-) unfolding cache_dir_def audio_path_def
  by (auto simp add: generate_from_text_def Let_def split: prod.splits sum.splits)

text \<open>C8, witness: a miss without a path, and a miss with the path \<open>take2.wav\<close>.\<close>

theorem miss_success_returns_record_witness:
  "get_cached_result ex_env (input_data_of ex_env ex_service ''Hi #there'')
      (case None of None \<Rightarrow> self_cache_dir ex_service | Some d \<Rightarrow> d) = None \<and>
   fst (generate_from_text ex_env ex_service w0 ''Hi #there'' None None)
     = Inr (JObj [(''input_text'', JStr ''Hi #there''),
                  (''input_data'', ex_fingerprint),
                  (''original_audio'', JStr ''hello-0a1b.mp3'')]) \<and>
   fst (generate_from_text ex_env ex_service w0 ''Hi #there'' None (Some ''take2.wav''))
     = Inr (JObj [(''input_text'', JStr ''Hi #there''),
                  (''input_data'', ex_fingerprint),
                  (''original_audio'', JStr ''take2.wav'')])"
proof -
  have h: "get_cached_result ex_env (input_data_of ex_env ex_service ''Hi #there'')
      (case None of None \<Rightarrow> self_cache_dir ex_service | Some d \<Rightarrow> d) = None"
    by (simp add: ex_env_def)
  have d: "input_data_of ex_env ex_service ''Hi #there'' = ex_fingerprint"
    "get_audio_basename ex_env ex_fingerprint = ''hello-0a1b''"
    by (simp_all add: input_data_of_def ex_defs2)
  obtain r1 where r1: "fst (generate_from_text ex_env ex_service w0 ''Hi #there'' None None) = Inr r1"
    by (simp add: gen_defs input_data_of_def ex_defs)
  obtain r2 where r2: "fst (generate_from_text ex_env ex_service w0 ''Hi #there'' None
                              (Some ''take2.wav'')) = Inr r2"
    by (simp add: gen_defs input_data_of_def ex_defs)
  from miss_success_returns_record [OF h r1] miss_success_returns_record [OF h r2] r1 r2 h d
  show ?thesis by simp
qed

text \<open>
  C9, as stated, fails. The exception that \<open>generate_from_text\<close> raises is created inside
  the handler of the original failure, so it carries that failure as its \<open>__context__\<close>:
  after an exhausted quota and after a full disk the caller receives two different
  exceptions, and reading \<open>__context__\<close> tells the one cause from the other.
\<close>

theorem synthesis_failure_context_counterexample:
  "fst (generate_from_text ex_env_quota ex_service w0 ''Hi #there'' None None)
     = Inl (Raised_in_handler Exception ''Failed to generate speech with ElevenLabs.''
              (Exn ApiError ''quota_exceeded'')) \<and>
   fst (generate_from_text ex_env_disk ex_service w0 ''Hi #there'' None None)
     = Inl (Raised_in_handler Exception ''Failed to generate speech with ElevenLabs.''
              (Exn OSError ''No space left on device'')) \<and>
   fst (generate_from_text ex_env_quota ex_service w0 ''Hi #there'' None None)
     \<noteq> fst (generate_from_text ex_env_disk ex_service w0 ''Hi #there'' None None)"
  by (simp add: gen_defs input_data_of_def ex_env_quota_def ex_env_disk_def ex_defs)

text \<open>
  C9, amended: on a cache miss, whatever exception \<open>e\<close> is raised by the synthesis call,
  by the iteration of its generator, by opening the file or by writing it, the method
  catches it, logs an error line with the message of \<open>e\<close>, and raises an exception whose
  class (\<open>Exception\<close>) and message are fixed and do not depend on \<open>e\<close>; the original
  failure \<open>e\<close> is the \<open>__context__\<close> of the raised exception.
\<close>

theorem synthesis_failure_is_generic:
  fixes E s w "txt" cache_dir_arg path e
  defines "cache_dir \<equiv> (case cache_dir_arg of None \<Rightarrow> self_cache_dir s | Some d \<Rightarrow> d)"
    and "audio_path \<equiv> (case path of
                          None \<Rightarrow> get_audio_basename E (input_data_of E s txt) @ ''.mp3''
                        | Some p \<Rightarrow> p)"
    and "args \<equiv> \<lparr>arg_text = remove_bookmarks E txt, arg_voice_id = self_voice_id s,
                  arg_model_id = self_model s, arg_output_format = self_output_format s,
                  arg_voice_settings = self_voice_settings s\<rparr>"
  assumes "get_cached_result E (input_data_of E s txt) cache_dir = None"
    and "convert E args = Inl e \<or>
         (\<exists>g. convert E args = Inr g \<and> join_chunks g = Inl e) \<or>
         (\<exists>g bs. convert E args = Inr g \<and> join_chunks g = Inr bs \<and>
            (open_wb E (path_join E cache_dir audio_path) = Some e \<or>
             open_wb E (path_join E cache_dir audio_path) = None \<and>
             fwrite E (path_join E cache_dir audio_path) bs = Some e))"
  shows "fst (generate_from_text E s w txt cache_dir_arg path) =
       Inl (Raised_in_handler Exception ''Failed to generate speech with ElevenLabs.'' e) \<and>
     last (logger (snd (generate_from_text E s w txt cache_dir_arg path))) =
       Error (''Error using ElevenLabs API: '' @ exn_str e)"
  using assms(4-) unfolding cache_dir_def audio_path_def args_def
  by (auto simp add: gen_defs)

text \<open>
  C9, witness: an exhausted quota and a full disk raise exceptions of the same class and
  message; each has its own cause as context, and each cause is in the log.
\<close>

theorem synthesis_failure_is_generic_witness:
  "get_cached_result ex_env_quota (input_data_of ex_env_quota ex_service ''Hi #there'')
      (case None of None \<Rightarrow> self_cache_dir ex_service | Some d \<Rightarrow> d) = None \<and>
   convert ex_env_quota
      \<lparr>arg_text = remove_bookmarks ex_env_quota ''Hi #there'',
       arg_voice_id = self_voice_id ex_service, arg_model_id = self_model ex_service,
       arg_output_format = self_output_format ex_service,
       arg_voice_settings = self_voice_settings ex_service\<rparr>
     = Inl (Exn ApiError ''quota_exceeded'') \<and>
   fwrite ex_env_disk ''media/hello-0a1b.mp3'' [1, 2, 3]
     = Some (Exn OSError ''No space left on device'') \<and>
   map_sum exn_class_of id (fst (generate_from_text ex_env_quota ex_service w0 ''Hi #there'' None None))
     = Inl Exception \<and>
   map_sum exn_class_of id (fst (generate_from_text ex_env_disk ex_service w0 ''Hi #there'' None None))
     = Inl Exception \<and>
   map_sum exn_str id (fst (generate_from_text ex_env_quota ex_service w0 ''Hi #there'' None None))
     = Inl ''Failed to generate speech with ElevenLabs.'' \<and>
   map_sum exn_str id (fst (generate_from_text ex_env_disk ex_service w0 ''Hi #there'' None None))
     = Inl ''Failed to generate speech with ElevenLabs.'' \<and>
   map_sum exn_context id (fst (generate_from_text ex_env_quota ex_service w0 ''Hi #there'' None None))
     = Inl (Some (Exn ApiError ''quota_exceeded'')) \<and>
   map_sum exn_context id (fst (generate_from_text ex_env_disk ex_service w0 ''Hi #there'' None None))
     = Inl (Some (Exn OSError ''No space left on device'')) \<and>
   last (logger (snd (generate_from_text ex_env_quota ex_service w0 ''Hi #there'' None None)))
     = Error ''Error using ElevenLabs API: quota_exceeded'' \<and>
   last (logger (snd (generate_from_text ex_env_disk ex_service w0 ''Hi #there'' None None)))
     = Error ''Error using ElevenLabs API: No space left on device''"
proof -
  have m1: "get_cached_result ex_env_quota (input_data_of ex_env_quota ex_service ''Hi #there'')
      (case None of None \<Rightarrow> self_cache_dir ex_service | Some d \<Rightarrow> d) = None"
    by (simp add: ex_env_quota_def ex_env_def)
  have m2: "get_cached_result ex_env_disk (input_data_of ex_env_disk ex_service ''Hi #there'')
      (case None of None \<Rightarrow> self_cache_dir ex_service | Some d \<Rightarrow> d) = None"
    by (simp add: ex_env_disk_def ex_env_def)
  have c1: "convert ex_env_quota
      \<lparr>arg_text = remove_bookmarks ex_env_quota ''Hi #there'',
       arg_voice_id = self_voice_id ex_service, arg_model_id = self_model ex_service,
       arg_output_format = self_output_format ex_service,
       arg_voice_settings = self_voice_settings ex_service\<rparr>
     = Inl (Exn ApiError ''quota_exceeded'')"
    by (simp add: ex_env_quota_def)
  have c2: "fwrite ex_env_disk ''media/hello-0a1b.mp3'' [1, 2, 3]
     = Some (Exn OSError ''No space left on device'')"
    by (simp add: ex_env_disk_def)
  have f2: "\<exists>g bs. convert ex_env_disk
      \<lparr>arg_text = remove_bookmarks ex_env_disk ''Hi #there'',
       arg_voice_id = self_voice_id ex_service, arg_model_id = self_model ex_service,
       arg_output_format = self_output_format ex_service,
       arg_voice_settings = self_voice_settings ex_service\<rparr> = Inr g \<and>
      join_chunks g = Inr bs \<and>
      (open_wb ex_env_disk (path_join ex_env_disk
          (case None of None \<Rightarrow> self_cache_dir ex_service | Some d \<Rightarrow> d)
          (case None of
             None \<Rightarrow> get_audio_basename ex_env_disk
                       (input_data_of ex_env_disk ex_service ''Hi #there'') @ ''.mp3''
           | Some p \<Rightarrow> p)) = Some (Exn OSError ''No space left on device'') \<or>
       open_wb ex_env_disk (path_join ex_env_disk
          (case None of None \<Rightarrow> self_cache_dir ex_service | Some d \<Rightarrow> d)
          (case None of
             None \<Rightarrow> get_audio_basename ex_env_disk
                       (input_data_of ex_env_disk ex_service ''Hi #there'') @ ''.mp3''
           | Some p \<Rightarrow> p)) = None \<and>
       fwrite ex_env_disk (path_join ex_env_disk
          (case None of None \<Rightarrow> self_cache_dir ex_service | Some d \<Rightarrow> d)
          (case None of
             None \<Rightarrow> get_audio_basename ex_env_disk
                       (input_data_of ex_env_disk ex_service ''Hi #there'') @ ''.mp3''
           | Some p \<Rightarrow> p)) bs = Some (Exn OSError ''No space left on device''))"
    by (simp add: ex_env_disk_def ex_env_def)
  from synthesis_failure_is_generic [OF m1 disjI1, OF c1, of w0 None]
       synthesis_failure_is_generic [OF m2 disjI2, OF disjI2, OF f2, of w0]
       m1 c1 c2
  show ?thesis by simp
qed

end
